theory Spec2Isabelle
  imports Complex_Main "HOL-Library.Word" "HOL-Library.Log_Nat"
begin

section \<open>JavaScript values used by the validators\<close>

text \<open>
  A JavaScript string is a sequence of UTF-16 code units, so a string is modelled as a list
  of 16-bit words. String literals of the source are ASCII; \<open>js_lit\<close> embeds an ASCII
  literal code unit by code unit.
\<close>

type_synonym code_unit = "16 word"
type_synonym jsstring = "code_unit list"

definition js_lit :: "string \<Rightarrow> jsstring" where
  "js_lit s = map (\<lambda>c. word_of_nat (of_char c)) s"

text \<open>
  Number values: the not-a-number value, the two infinities and the finite values. A finite
  value is kept as the rational it denotes (every finite double is a dyadic rational). The
  two zeros \<open>+0\<close> and \<open>-0\<close> are both \<open>Fin 0\<close>: the comparisons of the program do not
  tell them apart.
\<close>

datatype jsnum = NaN | PInf | NInf | Fin rat

text \<open>
  The primitive values a validator can be handed by the prompt library, by a test or by
  any other caller: \<open>undefined\<close>, \<open>null\<close>, booleans, numbers, strings and symbols
  (a symbol is told apart by its identity, a number here). Objects are not modelled.
\<close>

datatype jsvalue = Undefined | Null | Bool bool | Num jsnum | Str jsstring | Symbol nat

text \<open>The only exception the modelled code can raise.\<close>

datatype js_error = TypeError

section \<open>White space, \<open>String.prototype.trim\<close> and the regular expression \<open>/\s/\<close>\<close>

text \<open>
  ECMAScript white space is the union of the productions WhiteSpace (TAB, VT, FF, the
  byte order mark U+FEFF and the Unicode category Zs) and LineTerminator (LF, CR, U+2028,
  U+2029). Both \<open>trim\<close> and the character class escape \<open>\s\<close> use exactly this set. All
  members lie in the Basic Multilingual Plane, so each is a single code unit.
\<close>

definition is_js_whitespace :: "code_unit \<Rightarrow> bool" where
  "is_js_whitespace c \<longleftrightarrow>
     c = 0x0009 \<or> c = 0x000A \<or> c = 0x000B \<or> c = 0x000C \<or> c = 0x000D \<or>
     c = 0x0020 \<or> c = 0x00A0 \<or> c = 0x1680 \<or> (0x2000 \<le> c \<and> c \<le> 0x200A) \<or>
     c = 0x2028 \<or> c = 0x2029 \<or> c = 0x202F \<or> c = 0x205F \<or> c = 0x3000 \<or>
     c = 0xFEFF"

definition js_trim :: "jsstring \<Rightarrow> jsstring" where
  "js_trim s = rev (dropWhile is_js_whitespace (rev (dropWhile is_js_whitespace s)))"

text \<open>
  \<open>/\s/.test(s)\<close>: the pattern is a single character class and the expression has no
  flags, so the matcher tries each position from the left and succeeds at the first code
  unit in the class.
\<close>

fun regexp_space_test :: "jsstring \<Rightarrow> bool" where
  "regexp_space_test [] = False"
| "regexp_space_test (c # cs) = (if is_js_whitespace c then True else regexp_space_test cs)"

text \<open>
  The method call \<open>value.trim()\<close>. It is only reached for values other than
  \<open>undefined\<close> and \<open>null\<close> in the source, but the model is total: reading a property
  of \<open>undefined\<close> or \<open>null\<close> throws, and numbers, booleans and symbols have no
  \<open>trim\<close> method, so calling it throws as well.
\<close>

fun call_trim :: "jsvalue \<Rightarrow> js_error + jsstring" where
  "call_trim (Str s) = Inr (js_trim s)"
| "call_trim _ = Inl TypeError"

section \<open>The namespace and service-name validators\<close>

text \<open>
  A validator returns \<open>undefined\<close> for a valid input and a message string otherwise;
  \<open>Inl\<close> is a thrown exception. The test \<open>!trimmed\<close> on a string is true exactly for
  the empty string.
\<close>

definition validateNamespace :: "jsvalue \<Rightarrow> js_error + jsvalue" where
  "validateNamespace v =
     (if v = Undefined \<or> v = Null then Inr (Str (js_lit ''Namespace cannot be empty.''))
      else case call_trim v of
        Inl e \<Rightarrow> Inl e
      | Inr trimmed \<Rightarrow>
          if trimmed = [] then Inr (Str (js_lit ''Namespace cannot be empty.''))
          else if regexp_space_test trimmed
            then Inr (Str (js_lit ''Namespace cannot contain spaces.''))
          else Inr Undefined)"

definition validateServiceName :: "jsvalue \<Rightarrow> js_error + jsvalue" where
  "validateServiceName v =
     (if v = Undefined \<or> v = Null then Inr (Str (js_lit ''Service name is required.''))
      else case call_trim v of
        Inl e \<Rightarrow> Inl e
      | Inr trimmed \<Rightarrow>
          if trimmed = [] then Inr (Str (js_lit ''Service name is required.''))
          else if regexp_space_test trimmed
            then Inr (Str (js_lit ''Service name cannot contain spaces.''))
          else Inr Undefined)"

section \<open>The dashboard Helm argument builder\<close>

text \<open>The module constants the builder reads; all are \<open>const\<close> bindings.\<close>

definition DEFAULT_NAMESPACE :: jsstring where
  "DEFAULT_NAMESPACE = js_lit ''clustercost''"

definition AGENT_RELEASE :: jsstring where
  "AGENT_RELEASE = js_lit ''clustercost-agent''"

definition AGENT_CHART :: jsstring where
  "AGENT_CHART = js_lit ''clustercost/clustercost-agent-k8s''"

definition DASHBOARD_RELEASE :: jsstring where
  "DASHBOARD_RELEASE = js_lit ''clustercost-dashboard''"

definition DASHBOARD_CHART :: jsstring where
  "DASHBOARD_CHART = js_lit ''clustercost/clustercost-dashboard''"

text \<open>
  \<open>AGENT_SERVICE_PORT\<close> is the integer 8080. A template literal renders a non-negative
  integer Number below \<open>10^21\<close> as its decimal digits, which is all the builder needs
  of \<open>Number::toString\<close>.
\<close>

definition AGENT_SERVICE_PORT :: nat where
  "AGENT_SERVICE_PORT = 8080"

fun decimal_digits :: "nat \<Rightarrow> jsstring" where
  "decimal_digits n =
     (if n < 10 then [word_of_nat (48 + n)]
      else decimal_digits (n div 10) @ [word_of_nat (48 + n mod 10)])"

declare decimal_digits.simps [simp del]

text \<open>
  \<open>s.split(sep)\<close> for a separator of one code unit, and reading an array element:
  an index past the end reads \<open>undefined\<close> (\<open>None\<close>), which a template literal
  renders as the text "undefined".
\<close>

fun js_split :: "jsstring \<Rightarrow> code_unit \<Rightarrow> jsstring list" where
  "js_split [] sep = [[]]"
| "js_split (c # cs) sep =
     (if c = sep then [] # js_split cs sep
      else case js_split cs sep of
             [] \<Rightarrow> [[c]]
           | p # ps \<Rightarrow> (c # p) # ps)"

definition js_index :: "'a list \<Rightarrow> nat \<Rightarrow> 'a option" where
  "js_index xs i = (if i < length xs then Some (xs ! i) else None)"

definition template_part :: "jsstring option \<Rightarrow> jsstring" where
  "template_part v = (case v of None \<Rightarrow> js_lit ''undefined'' | Some s \<Rightarrow> s)"

definition AGENT_SERVICE_HOST :: jsstring where
  "AGENT_SERVICE_HOST =
     AGENT_RELEASE @ js_lit ''-'' @ template_part (js_index (js_split AGENT_CHART 0x2F) 1)"

definition buildAgentBaseUrl :: "jsstring \<Rightarrow> jsstring" where
  "buildAgentBaseUrl namespace =
     js_lit ''http://'' @ AGENT_SERVICE_HOST @ js_lit ''.'' @ namespace @
     js_lit ''.svc.cluster.local:'' @ decimal_digits AGENT_SERVICE_PORT"

text \<open>
  The builder takes the namespace string. \<open>!==\<close> on two strings compares them code
  unit by code unit, and \<open>args.push(a, b)\<close> appends both tokens to the local array.
\<close>

definition buildDashboardHelmArgs :: "jsstring \<Rightarrow> jsstring list" where
  "buildDashboardHelmArgs namespace =
     (let args = [js_lit ''upgrade'', js_lit ''--install'', DASHBOARD_RELEASE, DASHBOARD_CHART,
                  js_lit ''-n'', namespace]
      in if namespace \<noteq> DEFAULT_NAMESPACE
         then args @ [js_lit ''--set-string'',
                      js_lit ''agents[0].baseUrl='' @ buildAgentBaseUrl namespace]
         else args)"

text \<open>
  The module has one mutable binding, \<open>installState\<close>, which other functions read and
  reassign. A call of the builder is a step on that state: it returns the array and the
  state it leaves behind. The builder mentions no mutable binding, so the state passes
  through untouched and plays no part in the result.
\<close>

record release_info =
  release_namespace :: jsvalue
  release_revision :: jsvalue
  release_updated :: jsvalue
  release_status :: jsvalue

record install_state =
  agent :: "release_info option"
  dashboard :: "release_info option"

definition call_buildDashboardHelmArgs ::
    "jsstring \<Rightarrow> install_state \<Rightarrow> jsstring list \<times> install_state" where
  "call_buildDashboardHelmArgs namespace st = (buildDashboardHelmArgs namespace, st)"

section \<open>Numbers: comparison, rounding and \<open>Number(value)\<close>\<close>

text \<open>
  \<open>Number::lessThan\<close>: the result is \<open>undefined\<close> (\<open>None\<close>) when an operand is
  not-a-number. \<open>x <= y\<close> is true when \<open>y < x\<close> is false, \<open>x > y\<close> is true when
  \<open>y < x\<close> is true, and both are false when that comparison is \<open>undefined\<close>.
\<close>

fun Number_lessThan :: "jsnum \<Rightarrow> jsnum \<Rightarrow> bool option" where
  "Number_lessThan NaN y = None"
| "Number_lessThan x NaN = None"
| "Number_lessThan PInf y = Some False"
| "Number_lessThan x PInf = Some True"
| "Number_lessThan x NInf = Some False"
| "Number_lessThan NInf y = Some True"
| "Number_lessThan (Fin a) (Fin b) = Some (a < b)"

definition js_le :: "jsnum \<Rightarrow> jsnum \<Rightarrow> bool" where
  "js_le x y = (case Number_lessThan y x of Some False \<Rightarrow> True | _ \<Rightarrow> False)"

definition js_gt :: "jsnum \<Rightarrow> jsnum \<Rightarrow> bool" where
  "js_gt x y = (case Number_lessThan y x of Some True \<Rightarrow> True | _ \<Rightarrow> False)"

definition Number_isNaN :: "jsnum \<Rightarrow> bool" where
  "Number_isNaN x \<longleftrightarrow> x = NaN"

fun js_negate :: "jsnum \<Rightarrow> jsnum" where
  "js_negate NaN = NaN"
| "js_negate PInf = NInf"
| "js_negate NInf = PInf"
| "js_negate (Fin x) = Fin (- x)"

text \<open>
  The Number value for a mathematical value: IEEE 754 binary64, round to nearest, ties to
  even, overflow to infinity. \<open>ilog2 x\<close> is the binary exponent of a positive rational
  (the integer \<open>k\<close> with \<open>2^k \<le> x < 2^(k+1)\<close>, see \<open>ilog2_bounds\<close>); below the
  normal range the exponent stays at \<open>-1022\<close>, which gives the subnormal spacing. A value
  is rounded to a multiple of \<open>2^(e - 52)\<close>. Node's engine rounds a decimal literal of
  any length correctly, which is what is modelled.
\<close>

definition ilog2 :: "rat \<Rightarrow> int" where
  "ilog2 x = (let (p, q) = quotient_of x; k = bitlen p - bitlen q
              in if 2 powi k \<le> x then k else k - 1)"

definition round_half_even :: "rat \<Rightarrow> int" where
  "round_half_even x =
     (let f = \<lfloor>x\<rfloor>; d = x - of_int f
      in if d < 1 / 2 then f else if 1 / 2 < d then f + 1 else if even f then f else f + 1)"

definition round_double :: "rat \<Rightarrow> jsnum" where
  "round_double x =
     (if x = 0 then Fin 0
      else let a = \<bar>x\<bar>;
               e = max (ilog2 a) (- 1022);
               q = 2 powi (e - 52);
               r = of_int (round_half_even (a / q)) * q
           in if 2 ^ 1024 \<le> r then (if x < 0 then NInf else PInf)
              else Fin (if x < 0 then - r else r))"

text \<open>
  The grammar StringNumericLiteral of the language standard, applied by \<open>Number\<close> to a
  string. Digits are the ASCII digits (and letters for hexadecimal); \<open>digits_MV\<close> reads
  a digit sequence in a radix and fails on any other code unit.
\<close>

definition digit_value :: "code_unit \<Rightarrow> nat option" where
  "digit_value c =
     (if 0x30 \<le> c \<and> c \<le> 0x39 then Some (unat c - 0x30)
      else if 0x61 \<le> c \<and> c \<le> 0x66 then Some (unat c - 0x61 + 10)
      else if 0x41 \<le> c \<and> c \<le> 0x46 then Some (unat c - 0x41 + 10)
      else None)"

definition is_digit_of :: "nat \<Rightarrow> code_unit \<Rightarrow> bool" where
  "is_digit_of radix c = (case digit_value c of None \<Rightarrow> False | Some d \<Rightarrow> d < radix)"

fun digits_MV :: "nat \<Rightarrow> nat \<Rightarrow> jsstring \<Rightarrow> nat option" where
  "digits_MV radix acc [] = Some acc"
| "digits_MV radix acc (c # cs) =
     (case digit_value c of
        None \<Rightarrow> None
      | Some d \<Rightarrow> if d < radix then digits_MV radix (acc * radix + d) cs else None)"

text \<open>A non-empty digit sequence.\<close>

definition Digits_MV :: "nat \<Rightarrow> jsstring \<Rightarrow> nat option" where
  "Digits_MV radix ds = (if ds = [] then None else digits_MV radix 0 ds)"

text \<open>
  The rest of a decimal literal after its digits: nothing (exponent 0), or \<open>e\<close> or
  \<open>E\<close>, an optional sign and at least one digit, up to the end of the string.
\<close>

definition ExponentPart_MV :: "jsstring \<Rightarrow> int option" where
  "ExponentPart_MV s =
     (case s of
        [] \<Rightarrow> Some 0
      | c # r \<Rightarrow>
          if c = 0x65 \<or> c = 0x45 then
            (case r of
               [] \<Rightarrow> None
             | d # ds \<Rightarrow>
                 if d = 0x2B then map_option int (Digits_MV 10 ds)
                 else if d = 0x2D then map_option (\<lambda>n. - int n) (Digits_MV 10 ds)
                 else map_option int (Digits_MV 10 r))
          else None)"

text \<open>
  StrUnsignedDecimalLiteral: \<open>Infinity\<close>, or digits with an optional fraction and an
  optional exponent, where the integer part or the fraction (not both) may be missing.
\<close>

definition StrUnsignedDecimalLiteral :: "jsstring \<Rightarrow> jsnum option" where
  "StrUnsignedDecimalLiteral s =
     (if s = js_lit ''Infinity'' then Some PInf
      else
        let ip = takeWhile (is_digit_of 10) s;
            r1 = dropWhile (is_digit_of 10) s;
            has_dot = (case r1 of [] \<Rightarrow> False | c # _ \<Rightarrow> c = 0x2E);
            fp = (if has_dot then takeWhile (is_digit_of 10) (tl r1) else []);
            r2 = (if has_dot then dropWhile (is_digit_of 10) (tl r1) else r1)
        in if ip = [] \<and> fp = [] then None
           else case (digits_MV 10 0 ip, digits_MV 10 0 fp, ExponentPart_MV r2) of
                  (Some i, Some f, Some e) \<Rightarrow>
                    Some (round_double ((of_nat i + of_nat f / 10 ^ length fp) * 10 powi e))
                | _ \<Rightarrow> None)"

definition StrDecimalLiteral :: "jsstring \<Rightarrow> jsnum option" where
  "StrDecimalLiteral s =
     (case s of
        [] \<Rightarrow> None
      | c # r \<Rightarrow>
          if c = 0x2B then StrUnsignedDecimalLiteral r
          else if c = 0x2D then map_option js_negate (StrUnsignedDecimalLiteral r)
          else StrUnsignedDecimalLiteral s)"

text \<open>Hexadecimal, octal and binary integer literals; they take no sign.\<close>

definition NonDecimalIntegerLiteral :: "jsstring \<Rightarrow> jsnum option" where
  "NonDecimalIntegerLiteral s =
     (case s of
        z # p # ds \<Rightarrow>
          if z \<noteq> 0x30 then None
          else if p = 0x78 \<or> p = 0x58
            then map_option (\<lambda>n. round_double (of_nat n)) (Digits_MV 16 ds)
          else if p = 0x6F \<or> p = 0x4F
            then map_option (\<lambda>n. round_double (of_nat n)) (Digits_MV 8 ds)
          else if p = 0x62 \<or> p = 0x42
            then map_option (\<lambda>n. round_double (of_nat n)) (Digits_MV 2 ds)
          else None
      | _ \<Rightarrow> None)"

text \<open>
  StringToNumber: white space around the literal is skipped, the empty text is \<open>+0\<close>,
  and text that does not match the grammar is not-a-number.
\<close>

definition StringToNumber :: "jsstring \<Rightarrow> jsnum" where
  "StringToNumber s =
     (let t = js_trim s
      in if t = [] then Fin 0
         else case NonDecimalIntegerLiteral t of
                Some n \<Rightarrow> n
              | None \<Rightarrow> (case StrDecimalLiteral t of Some n \<Rightarrow> n | None \<Rightarrow> NaN))"

text \<open>
  \<open>Number(value)\<close> on a primitive value. A symbol cannot be converted to a number:
  the call throws a TypeError.
\<close>

fun js_Number :: "jsvalue \<Rightarrow> js_error + jsnum" where
  "js_Number Undefined = Inr NaN"
| "js_Number Null = Inr (Fin 0)"
| "js_Number (Bool b) = Inr (Fin (if b then 1 else 0))"
| "js_Number (Num n) = Inr n"
| "js_Number (Str s) = Inr (StringToNumber s)"
| "js_Number (Symbol i) = Inl TypeError"

section \<open>The port validator\<close>

definition validatePort :: "jsvalue \<Rightarrow> js_error + jsvalue" where
  "validatePort v =
     (let trimmed = (case v of Str s \<Rightarrow> Str (js_trim s) | _ \<Rightarrow> v)
      in case js_Number trimmed of
           Inl e \<Rightarrow> Inl e
         | Inr numeric \<Rightarrow>
             if Number_isNaN numeric \<or> js_le numeric (Fin 0) \<or> js_gt numeric (Fin 65535)
             then Inr (Str (js_lit ''Enter a valid TCP port (1-65535).''))
             else Inr Undefined)"

section \<open>Facts about trimming and the white-space test\<close>

lemma regexp_space_test_iff: "regexp_space_test s \<longleftrightarrow> (\<exists>c \<in> set s. is_js_whitespace c)"
  by (induction s) auto

lemma js_lit_append: "js_lit (a @ b) = js_lit a @ js_lit b"
  by (simp add: js_lit_def)

lemma js_lit_eq_Nil: "js_lit s = [] \<longleftrightarrow> s = []"
  by (simp add: js_lit_def)

lemma js_trim_Nil: "js_trim [] = []"
  by (simp add: js_trim_def)

lemma dropWhile_unchanged: "xs \<noteq> [] \<Longrightarrow> \<not> P (hd xs) \<Longrightarrow> dropWhile P xs = xs"
  by (cases xs) auto

lemma dropWhile_rev_unchanged:
  "xs \<noteq> [] \<Longrightarrow> \<not> P (last xs) \<Longrightarrow> dropWhile P (rev xs) = rev xs"
  by (cases xs rule: rev_cases) auto

text \<open>A trimmed string neither starts nor ends with white space.\<close>

lemma js_trim_prefix:
  "dropWhile is_js_whitespace s =
     js_trim s @ rev (takeWhile is_js_whitespace (rev (dropWhile is_js_whitespace s)))"
proof -
  let ?d = "dropWhile is_js_whitespace s"
  have "rev ?d = takeWhile is_js_whitespace (rev ?d) @ dropWhile is_js_whitespace (rev ?d)"
    by simp
  then have "rev (rev ?d) =
      rev (takeWhile is_js_whitespace (rev ?d) @ dropWhile is_js_whitespace (rev ?d))"
    by (rule arg_cong)
  then show ?thesis
    unfolding js_trim_def rev_append rev_rev_ident .
qed

lemma js_trim_hd: "js_trim s \<noteq> [] \<Longrightarrow> \<not> is_js_whitespace (hd (js_trim s))"
proof -
  let ?d = "dropWhile is_js_whitespace s"
  assume ne: "js_trim s \<noteq> []"
  have "hd ?d = hd (js_trim s)"
    using ne js_trim_prefix [of s] by (metis hd_append2)
  moreover have "?d \<noteq> []"
    using ne js_trim_prefix [of s] by (metis append_is_Nil_conv)
  ultimately show ?thesis
    using hd_dropWhile by metis
qed

lemma js_trim_last: "js_trim s \<noteq> [] \<Longrightarrow> \<not> is_js_whitespace (last (js_trim s))"
proof -
  let ?r = "dropWhile is_js_whitespace (rev (dropWhile is_js_whitespace s))"
  assume ne: "js_trim s \<noteq> []"
  then have r_ne: "?r \<noteq> []"
    unfolding js_trim_def by (metis rev_is_Nil_conv)
  have "last (js_trim s) = hd ?r"
    unfolding js_trim_def using r_ne by (metis last_rev)
  then show ?thesis
    using r_ne hd_dropWhile by metis
qed

lemma js_trim_idem: "js_trim (js_trim s) = js_trim s"
proof (cases "js_trim s = []")
  case True
  then show ?thesis by (simp add: js_trim_Nil)
next
  case False
  let ?t = "js_trim s"
  have d1: "dropWhile is_js_whitespace ?t = ?t"
    using dropWhile_unchanged [of ?t is_js_whitespace] False js_trim_hd [OF False] by blast
  have d2: "dropWhile is_js_whitespace (rev ?t) = rev ?t"
    using dropWhile_rev_unchanged [of ?t is_js_whitespace] False js_trim_last [OF False]
    by blast
  show ?thesis
    unfolding js_trim_def [of ?t] d1 d2 by simp
qed

section \<open>Claims about the namespace and service-name validators\<close>

text \<open>
  C1. For an absent (\<open>undefined\<close>) input, and for a string whose trimmed form is empty,
  \<open>validateNamespace\<close> returns "Namespace cannot be empty."; for a string whose trimmed
  form is non-empty and contains a white-space code unit it returns "Namespace cannot
  contain spaces."; for every other string it returns \<open>undefined\<close>. The rules apply in
  this order, and no string input throws.
\<close>

theorem validateNamespace_rules:
  "validateNamespace Undefined = Inr (Str (js_lit ''Namespace cannot be empty.'')) \<and>
   validateNamespace (Str s) =
     (if js_trim s = [] then Inr (Str (js_lit ''Namespace cannot be empty.''))
      else if \<exists>c \<in> set (js_trim s). is_js_whitespace c
        then Inr (Str (js_lit ''Namespace cannot contain spaces.''))
      else Inr Undefined)"
  by (simp add: validateNamespace_def regexp_space_test_iff)

theorem validateNamespace_rules_witness:
  "validateNamespace (Str (js_lit ''clustercost'')) = Inr Undefined \<and>
   validateNamespace (Str (js_lit '''')) = Inr (Str (js_lit ''Namespace cannot be empty.'')) \<and>
   validateNamespace (Str (js_lit ''   '')) = Inr (Str (js_lit ''Namespace cannot be empty.'')) \<and>
   validateNamespace (Str (js_lit ''prod namespace'')) =
     Inr (Str (js_lit ''Namespace cannot contain spaces.''))"
  using validateNamespace_rules [of "js_lit ''clustercost''"]
    validateNamespace_rules [of "js_lit ''''"]
    validateNamespace_rules [of "js_lit ''   ''"]
    validateNamespace_rules [of "js_lit ''prod namespace''"]
  by (simp add: js_lit_def js_trim_def is_js_whitespace_def)

text \<open>
  C6. \<open>validateServiceName\<close> has the same three ordered rules with its own messages:
  "Service name is required." for an absent input or an empty trimmed form, "Service name
  cannot contain spaces." for a non-empty trimmed form containing white space, and
  \<open>undefined\<close> otherwise.
\<close>

theorem validateServiceName_rules:
  "validateServiceName Undefined = Inr (Str (js_lit ''Service name is required.'')) \<and>
   validateServiceName (Str s) =
     (if js_trim s = [] then Inr (Str (js_lit ''Service name is required.''))
      else if \<exists>c \<in> set (js_trim s). is_js_whitespace c
        then Inr (Str (js_lit ''Service name cannot contain spaces.''))
      else Inr Undefined)"
  by (simp add: validateServiceName_def regexp_space_test_iff)

theorem validateServiceName_rules_witness:
  "validateServiceName (Str (js_lit ''svc-clustercost'')) = Inr Undefined \<and>
   validateServiceName (Str (js_lit '''')) = Inr (Str (js_lit ''Service name is required.'')) \<and>
   validateServiceName (Str (js_lit ''svc dashboard'')) =
     Inr (Str (js_lit ''Service name cannot contain spaces.'')) \<and>
   validateServiceName (Str (js_lit '' svc-cluster '')) = Inr Undefined"
  using validateServiceName_rules [of "js_lit ''svc-clustercost''"]
    validateServiceName_rules [of "js_lit ''''"]
    validateServiceName_rules [of "js_lit ''svc dashboard''"]
    validateServiceName_rules [of "js_lit '' svc-cluster ''"]
  by (simp add: js_lit_def js_trim_def is_js_whitespace_def)

text \<open>
  C9. A \<open>null\<close> input takes the same first branch as \<open>undefined\<close>:
  \<open>validateNamespace(null)\<close> returns "Namespace cannot be empty." and
  \<open>validateServiceName(null)\<close> returns "Service name is required."; neither throws.
\<close>

theorem validators_null_as_undefined:
  "validateNamespace Null = Inr (Str (js_lit ''Namespace cannot be empty.'')) \<and>
   validateNamespace Null = validateNamespace Undefined \<and>
   validateServiceName Null = Inr (Str (js_lit ''Service name is required.'')) \<and>
   validateServiceName Null = validateServiceName Undefined"
  by (simp add: validateNamespace_def validateServiceName_def)

section \<open>Claims about the argument builder\<close>

lemma AGENT_SERVICE_HOST_value:
  "AGENT_SERVICE_HOST = js_lit ''clustercost-agent-clustercost-agent-k8s''"
  by (simp add: AGENT_SERVICE_HOST_def AGENT_RELEASE_def AGENT_CHART_def js_index_def
      template_part_def js_lit_def)

lemma AGENT_SERVICE_PORT_digits: "decimal_digits AGENT_SERVICE_PORT = js_lit ''8080''"
  by (simp add: AGENT_SERVICE_PORT_def decimal_digits.simps js_lit_def)

lemma buildAgentBaseUrl_value:
  "buildAgentBaseUrl namespace =
     js_lit ''http://clustercost-agent-clustercost-agent-k8s.'' @ namespace @
     js_lit ''.svc.cluster.local:8080''"
  by (simp add: buildAgentBaseUrl_def AGENT_SERVICE_HOST_value AGENT_SERVICE_PORT_digits
      js_lit_def)

text \<open>
  C4. For every namespace string the output is the six fixed tokens followed by the two
  tokens "--set-string" and
  "agents[0].baseUrl=http://clustercost-agent-clustercost-agent-k8s.<namespace>.svc.cluster.local:8080"
  exactly when the namespace is not the string "clustercost"; otherwise nothing is
  appended. For "team-a" the token "--set-string" is at index 6 and the override token
  right after it at index 7.
\<close>

theorem buildDashboardHelmArgs_override:
  "buildDashboardHelmArgs namespace =
     [js_lit ''upgrade'', js_lit ''--install'', js_lit ''clustercost-dashboard'',
      js_lit ''clustercost/clustercost-dashboard'', js_lit ''-n'', namespace] @
     (if namespace \<noteq> js_lit ''clustercost''
      then [js_lit ''--set-string'',
            js_lit ''agents[0].baseUrl=http://clustercost-agent-clustercost-agent-k8s.'' @
            namespace @ js_lit ''.svc.cluster.local:8080'']
      else []) \<and>
   buildDashboardHelmArgs (js_lit ''team-a'') ! 6 = js_lit ''--set-string'' \<and>
   buildDashboardHelmArgs (js_lit ''team-a'') ! 7 =
     js_lit ''agents[0].baseUrl=http://clustercost-agent-clustercost-agent-k8s.team-a.svc.cluster.local:8080''"
  by (simp add: buildDashboardHelmArgs_def buildAgentBaseUrl_value DEFAULT_NAMESPACE_def
      DASHBOARD_RELEASE_def DASHBOARD_CHART_def js_lit_def)

theorem buildDashboardHelmArgs_override_witness:
  "buildDashboardHelmArgs (js_lit ''team-a'') =
     [js_lit ''upgrade'', js_lit ''--install'', js_lit ''clustercost-dashboard'',
      js_lit ''clustercost/clustercost-dashboard'', js_lit ''-n'', js_lit ''team-a'',
      js_lit ''--set-string'',
      js_lit ''agents[0].baseUrl=http://clustercost-agent-clustercost-agent-k8s.team-a.svc.cluster.local:8080'']"
  using buildDashboardHelmArgs_override [of "js_lit ''team-a''"]
  by (simp add: js_lit_def)

text \<open>
  C5. For the default namespace "clustercost" the output is exactly the six tokens
  "upgrade", "--install", the release name, the chart reference, "-n" and the namespace;
  it contains neither "--set-string" nor an override token.
\<close>

theorem buildDashboardHelmArgs_default:
  "buildDashboardHelmArgs (js_lit ''clustercost'') =
     [js_lit ''upgrade'', js_lit ''--install'', js_lit ''clustercost-dashboard'',
      js_lit ''clustercost/clustercost-dashboard'', js_lit ''-n'', js_lit ''clustercost''] \<and>
   js_lit ''--set-string'' \<notin> set (buildDashboardHelmArgs (js_lit ''clustercost'')) \<and>
   js_lit ''agents[0].baseUrl='' @ buildAgentBaseUrl (js_lit ''clustercost'')
     \<notin> set (buildDashboardHelmArgs (js_lit ''clustercost''))"
  by (simp add: buildDashboardHelmArgs_def buildAgentBaseUrl_value DEFAULT_NAMESPACE_def
      DASHBOARD_RELEASE_def DASHBOARD_CHART_def js_lit_def)

text \<open>
  C7. Two calls of the builder with the same namespace return equal sequences, whatever
  the module state is at either call, and neither call changes that state.
\<close>

theorem buildDashboardHelmArgs_deterministic:
  assumes "call_buildDashboardHelmArgs namespace st = (args1, st1)"
    and "call_buildDashboardHelmArgs namespace st' = (args2, st2)"
  shows "args1 = args2 \<and> st1 = st \<and> st2 = st'"
  using assms by (simp add: call_buildDashboardHelmArgs_def)

theorem buildDashboardHelmArgs_deterministic_witness:
  "fst (call_buildDashboardHelmArgs (js_lit ''team-a'') \<lparr>agent = None, dashboard = None\<rparr>) =
   fst (call_buildDashboardHelmArgs (js_lit ''team-a'')
     \<lparr>agent = Some \<lparr>release_namespace = Str (js_lit ''team-a''), release_revision = Null,
       release_updated = Null, release_status = Null\<rparr>, dashboard = None\<rparr>)"
  using buildDashboardHelmArgs_deterministic [OF surjective_pairing surjective_pairing]
  by blast

section \<open>Facts about the binary exponent and rounding\<close>

text \<open>
  \<open>ilog2\<close> is the binary exponent: it is the one integer \<open>k\<close> with
  \<open>2^k \<le> x < 2^(k+1)\<close>. A value that is a multiple of the spacing at its exponent is
  a double already and rounding returns it unchanged; every positive integer below
  \<open>2^53\<close> is such a value.
\<close>

lemma quotient_of_pos:
  assumes "0 < x" and "quotient_of x = (p, q)"
  shows "0 < p" and "0 < q" and "x = of_int p / of_int q"
proof -
  show q: "0 < q" using assms(2) by (rule quotient_of_denom_pos)
  show x: "x = of_int p / of_int q" using assms(2) by (rule quotient_of_div)
  show "0 < p"
    using assms(1) q unfolding x by (simp add: zero_less_divide_iff)
qed

lemma bitlen_rat_bounds:
  assumes "0 < p"
  shows "(2::rat) powi (bitlen p - 1) \<le> of_int p" and "(of_int p :: rat) < 2 powi bitlen p"
proof -
  have b1: "1 \<le> bitlen p"
    using assms by (simp add: bitlen_alt_def)
  have "(2::int) ^ nat (bitlen p - 1) \<le> p" and "p < 2 ^ nat (bitlen p)"
    using bitlen_bounds [OF assms] by simp_all
  then have "(of_int (2 ^ nat (bitlen p - 1)) :: rat) \<le> of_int p"
    and "(of_int p :: rat) < of_int (2 ^ nat (bitlen p))"
    by (simp_all only: of_int_le_iff of_int_less_iff)
  then show "(2::rat) powi (bitlen p - 1) \<le> of_int p" and "(of_int p :: rat) < 2 powi bitlen p"
    using b1 by (simp_all add: power_int_def)
qed

lemma ilog2_bounds:
  assumes "0 < x"
  shows "2 powi ilog2 x \<le> x \<and> x < 2 powi (ilog2 x + 1)"
proof -
  obtain p q where pq: "quotient_of x = (p, q)"
    by (cases "quotient_of x")
  note f = quotient_of_pos [OF assms pq]
  let ?k = "bitlen p - bitlen q"
  note P = bitlen_rat_bounds [OF f(1)]
  note Q = bitlen_rat_bounds [OF f(2)]
  have pos: "(0::rat) < 2 powi n" for n
    by simp
  have "x < 2 powi bitlen p / 2 powi (bitlen q - 1)"
    unfolding f(3) using P(2) Q(1) f(1) pos [of "bitlen q - 1"]
    by (intro frac_less) simp_all
  also have "\<dots> = 2 powi (bitlen p - (bitlen q - 1))"
    by (rule power_int_diff [symmetric]) simp
  also have "bitlen p - (bitlen q - 1) = ?k + 1"
    by simp
  finally have up: "x < 2 powi (?k + 1)" .
  have "2 powi (bitlen p - 1) / 2 powi bitlen q < x"
    unfolding f(3) using P(1) Q(2) f(2) pos [of "bitlen p - 1"]
    by (intro frac_less2) simp_all
  moreover have "(2::rat) powi (bitlen p - 1) / 2 powi bitlen q = 2 powi (bitlen p - 1 - bitlen q)"
    by (rule power_int_diff [symmetric]) simp
  moreover have "bitlen p - 1 - bitlen q = ?k - 1"
    by simp
  ultimately have lo: "2 powi (?k - 1) < x"
    by simp
  show ?thesis
    using up lo pq by (auto simp: ilog2_def Let_def)
qed

lemma ilog2_unique:
  assumes "0 < x" and "2 powi k \<le> x" and "x < 2 powi (k + 1)"
  shows "ilog2 x = k"
proof -
  note b = ilog2_bounds [OF assms(1)]
  have "(2::rat) powi k < 2 powi (ilog2 x + 1)"
    using assms(2) b by simp
  then have 1: "k < ilog2 x + 1"
    using power_int_increasing [of "ilog2 x + 1" k "2::rat"] by (cases "k < ilog2 x + 1") auto
  have "(2::rat) powi ilog2 x < 2 powi (k + 1)"
    using assms(3) b by simp
  then have 2: "ilog2 x < k + 1"
    using power_int_increasing [of "k + 1" "ilog2 x" "2::rat"] by (cases "ilog2 x < k + 1") auto
  from 1 2 show ?thesis by simp
qed

lemma round_half_even_of_int: "round_half_even (of_int z) = z"
  by (simp add: round_half_even_def)

lemma round_double_minus: "round_double (- x) = js_negate (round_double x)"
  by (simp add: round_double_def Let_def)

text \<open>A positive value with at most 53 significant bits at its own exponent is a double.\<close>

lemma round_double_exact:
  assumes "0 < x" and "2 powi k \<le> x" and "x < 2 powi (k + 1)"
    and "- 1022 \<le> k" and "k < 1024" and "x = of_int m * 2 powi (k - 52)"
  shows "round_double x = Fin x"
proof -
  have e: "max (ilog2 \<bar>x\<bar>) (- 1022) = k"
    using assms(1,4) ilog2_unique [OF assms(1-3)] by simp
  have "\<bar>x\<bar> / 2 powi (k - 52) = of_int m"
    using assms(1,6) by simp
  then have r: "of_int (round_half_even (\<bar>x\<bar> / 2 powi (k - 52))) * 2 powi (k - 52) = x"
    using assms(6) by (simp add: round_half_even_of_int)
  have "x < 2 powi 1024"
    using assms(3,5) power_int_increasing [of "k + 1" 1024 "2::rat"] by simp
  then have "\<not> 2 ^ 1024 \<le> x"
    by simp
  then show ?thesis
    using assms(1) unfolding round_double_def Let_def e r by simp
qed

lemma round_double_nat:
  assumes "0 < n" and "n < 2 ^ 53"
  shows "round_double (of_nat n) = Fin (of_nat n)"
proof -
  let ?x = "of_nat n :: rat"
  let ?k = "ilog2 ?x"
  have pos: "0 < ?x"
    using assms(1) by simp
  note b = ilog2_bounds [OF pos]
  have "(2::rat) powi 0 < 2 powi (?k + 1)"
    using b assms(1) by (simp add: order_less_le_trans [of _ ?x])
  then have k0: "0 \<le> ?k"
    using power_int_increasing [of "?k + 1" 0 "2::rat"] by (cases "0 \<le> ?k") auto
  have "?x < 2 ^ 53"
    using assms(2) by (metis of_nat_less_iff of_nat_numeral of_nat_power)
  then have "(2::rat) powi ?k < 2 powi 53"
    using b by simp
  then have k52: "?k \<le> 52"
    using power_int_increasing [of 53 ?k "2::rat"] by (cases "?k \<le> 52") auto
  have "(2::rat) powi (52 - ?k) * 2 powi (?k - 52) = 2 powi (52 - ?k + (?k - 52))"
    by (rule power_int_add [symmetric]) simp
  moreover have "(2::rat) powi (52 - ?k) = 2 ^ nat (52 - ?k)"
    using k52 by (simp add: power_int_def)
  ultimately have inv: "(2::rat) ^ nat (52 - ?k) * 2 powi (?k - 52) = 1"
    by simp
  have "of_int (int n * 2 ^ nat (52 - ?k)) * 2 powi (?k - 52) =
      ?x * ((2::rat) ^ nat (52 - ?k) * 2 powi (?k - 52))"
    by simp
  then have eq: "?x = of_int (int n * 2 ^ nat (52 - ?k)) * 2 powi (?k - 52)"
    unfolding inv by simp
  have lo: "- 1022 \<le> ?k" and hi: "?k < 1024"
    using k0 k52 by simp_all
  show ?thesis
    by (rule round_double_exact [OF pos conjunct1 [OF b] conjunct2 [OF b] lo hi eq])
qed


section \<open>Evaluating the port validator\<close>

lemma js_lit_not_Nil: "js_lit (c # cs) \<noteq> []"
  by (simp add: js_lit_def)

lemma StringToNumber_trim: "StringToNumber (js_trim s) = StringToNumber s"
  by (simp add: StringToNumber_def js_trim_idem)

text \<open>The three tests of \<open>validatePort\<close> on each kind of Number value.\<close>

lemma js_le_Fin: "js_le (Fin x) (Fin y) \<longleftrightarrow> x \<le> y"
  by (cases "y < x") (simp_all add: js_le_def)

lemma js_gt_Fin: "js_gt (Fin x) (Fin y) \<longleftrightarrow> y < x"
  by (cases "y < x") (simp_all add: js_gt_def)

lemma port_tests:
  "(Number_isNaN n \<or> js_le n (Fin 0) \<or> js_gt n (Fin 65535)) =
     (case n of Fin x \<Rightarrow> x \<le> 0 \<or> 65535 < x | _ \<Rightarrow> True)"
proof (cases n)
  case (Fin x)
  then show ?thesis
    by (simp add: Number_isNaN_def js_le_Fin js_gt_Fin)
qed (simp_all add: Number_isNaN_def js_le_def js_gt_def)

lemma validatePort_Str:
  "validatePort (Str s) =
     (case StringToNumber s of
        Fin x \<Rightarrow> if x \<le> 0 \<or> 65535 < x
                 then Inr (Str (js_lit ''Enter a valid TCP port (1-65535).''))
                 else Inr Undefined
      | _ \<Rightarrow> Inr (Str (js_lit ''Enter a valid TCP port (1-65535).'')))"
  unfolding validatePort_def Let_def
  by (simp add: port_tests StringToNumber_trim split: jsnum.split)

lemmas parse_simps = js_lit_def js_trim_def is_js_whitespace_def StringToNumber_def
  NonDecimalIntegerLiteral_def StrDecimalLiteral_def StrUnsignedDecimalLiteral_def
  ExponentPart_MV_def Digits_MV_def is_digit_of_def digit_value_def Let_def

lemma round_double_three_halves: "round_double (3 / 2) = Fin (3 / 2)"
  by (rule round_double_exact [where k = 0 and m = 6755399441055744]) simp_all

lemma StringToNumber_8080: "StringToNumber (js_lit '' 8080 '') = Fin 8080"
  using round_double_nat [of 8080] by (simp add: parse_simps)

lemma StringToNumber_99999: "StringToNumber (js_lit ''99999'') = Fin 99999"
  using round_double_nat [of 99999] by (simp add: parse_simps)

lemma StringToNumber_65535: "StringToNumber (js_lit ''65535'') = Fin 65535"
  using round_double_nat [of 65535] by (simp add: parse_simps)

lemma StringToNumber_0: "StringToNumber (js_lit ''0'') = Fin 0"
  by (simp add: parse_simps round_double_def)

lemma StringToNumber_minus_1: "StringToNumber (js_lit ''-1'') = Fin (- 1)"
  using round_double_nat [of 1] by (simp add: parse_simps)

lemma StringToNumber_abc: "StringToNumber (js_lit ''abc'') = NaN"
  by (simp add: parse_simps)

lemma StringToNumber_empty: "StringToNumber [] = Fin 0"
  by (simp add: StringToNumber_def js_trim_def)

lemma StringToNumber_fraction: "StringToNumber (js_lit ''1.5'') = Fin (3 / 2)"
  by (simp add: parse_simps round_double_three_halves)

lemma round_double_half: "round_double (1 / 2) = Fin (1 / 2)"
  by (rule round_double_exact [where k = "- 1" and m = 4503599627370496]) simp_all

lemma StringToNumber_half: "StringToNumber (js_lit ''0.5'') = Fin (1 / 2)"
  by (simp add: parse_simps round_double_half)

section \<open>Claims about the port validator\<close>

text \<open>
  C2. For every string, \<open>validatePort\<close> trims it and coerces the trimmed string to a
  number; it returns "Enter a valid TCP port (1-65535)." when the number is not-a-number,
  is at most 0 (which includes minus infinity) or exceeds 65535 (which includes plus
  infinity), and \<open>undefined\<close> otherwise. So " 8080 " is valid, and "99999", "0", "-1"
  and "abc" each get the message.
\<close>

theorem validatePort_range_rule:
  "js_Number (Str (js_trim s)) = Inr (StringToNumber (js_trim s)) \<and>
   validatePort (Str s) =
     (case StringToNumber (js_trim s) of
        NaN \<Rightarrow> Inr (Str (js_lit ''Enter a valid TCP port (1-65535).''))
      | PInf \<Rightarrow> Inr (Str (js_lit ''Enter a valid TCP port (1-65535).''))
      | NInf \<Rightarrow> Inr (Str (js_lit ''Enter a valid TCP port (1-65535).''))
      | Fin x \<Rightarrow> if x \<le> 0 \<or> 65535 < x
                 then Inr (Str (js_lit ''Enter a valid TCP port (1-65535).''))
                 else Inr Undefined) \<and>
   validatePort (Str (js_lit '' 8080 '')) = Inr Undefined \<and>
   validatePort (Str (js_lit ''99999'')) =
     Inr (Str (js_lit ''Enter a valid TCP port (1-65535).'')) \<and>
   validatePort (Str (js_lit ''0'')) =
     Inr (Str (js_lit ''Enter a valid TCP port (1-65535).'')) \<and>
   validatePort (Str (js_lit ''-1'')) =
     Inr (Str (js_lit ''Enter a valid TCP port (1-65535).'')) \<and>
   validatePort (Str (js_lit ''abc'')) =
     Inr (Str (js_lit ''Enter a valid TCP port (1-65535).''))"
proof -
  have "js_Number (Str (js_trim s)) = Inr (StringToNumber (js_trim s))"
    by simp
  moreover have "validatePort (Str s) =
     (case StringToNumber (js_trim s) of
        NaN \<Rightarrow> Inr (Str (js_lit ''Enter a valid TCP port (1-65535).''))
      | PInf \<Rightarrow> Inr (Str (js_lit ''Enter a valid TCP port (1-65535).''))
      | NInf \<Rightarrow> Inr (Str (js_lit ''Enter a valid TCP port (1-65535).''))
      | Fin x \<Rightarrow> if x \<le> 0 \<or> 65535 < x
                 then Inr (Str (js_lit ''Enter a valid TCP port (1-65535).''))
                 else Inr Undefined)"
    unfolding validatePort_def Let_def by (simp add: port_tests split: jsnum.split)
  moreover have "validatePort (Str (js_lit '' 8080 '')) = Inr Undefined"
    by (simp add: validatePort_Str StringToNumber_8080)
  moreover have "validatePort (Str (js_lit ''99999'')) =
      Inr (Str (js_lit ''Enter a valid TCP port (1-65535).''))"
    by (simp add: validatePort_Str StringToNumber_99999)
  moreover have "validatePort (Str (js_lit ''0'')) =
      Inr (Str (js_lit ''Enter a valid TCP port (1-65535).''))"
    by (simp add: validatePort_Str StringToNumber_0)
  moreover have "validatePort (Str (js_lit ''-1'')) =
      Inr (Str (js_lit ''Enter a valid TCP port (1-65535).''))"
    by (simp add: validatePort_Str StringToNumber_minus_1)
  moreover have "validatePort (Str (js_lit ''abc'')) =
      Inr (Str (js_lit ''Enter a valid TCP port (1-65535).''))"
    by (simp add: validatePort_Str StringToNumber_abc)
  ultimately show ?thesis
    by (intro conjI)
qed

theorem validatePort_range_rule_witness:
  "validatePort (Str (js_lit ''65535'')) = Inr Undefined"
proof -
  have "StringToNumber (js_trim (js_lit ''65535'')) = Fin 65535"
    by (simp add: StringToNumber_trim StringToNumber_65535)
  then show ?thesis
    using validatePort_range_rule [of "js_lit ''65535''"] by simp
qed

text \<open>
  C3. \<open>validatePort\<close> is to accept exactly the strings that, once trimmed, coerce to
  an integer-valued number from 1 to 65535, and to reject every other string, non-integer
  numerals included. The code tests \<open>numeric <= 0\<close> and \<open>numeric > 65535\<close> only.
  "0.5" coerces to the number 0.5, which is below 1, and is accepted, although the
  message of the validator gives the range as 1-65535; "1.5" coerces to 1.5, which is in
  the range and not an integer, and is accepted as well.
\<close>

theorem validatePort_accepts_fraction:
  "js_Number (Str (js_trim (js_lit ''0.5''))) = Inr (Fin (1 / 2)) \<and>
   validatePort (Str (js_lit ''0.5'')) = Inr Undefined \<and>
   js_Number (Str (js_trim (js_lit ''1.5''))) = Inr (Fin (3 / 2)) \<and> (3 / 2 :: rat) \<notin> \<int> \<and>
   validatePort (Str (js_lit ''1.5'')) = Inr Undefined"
proof -
  have "(3 / 2 :: rat) \<notin> \<int>"
  proof
    assume "(3 / 2 :: rat) \<in> \<int>"
    then obtain z :: int where "(3 / 2 :: rat) = of_int z"
      by (rule Ints_cases)
    then have "(of_int 3 :: rat) = of_int (2 * z)"
      by simp
    then have "3 = 2 * z"
      by (simp only: of_int_eq_iff)
    then show False
      by presburger
  qed
  then show ?thesis
    by (simp add: validatePort_Str StringToNumber_trim StringToNumber_fraction
        StringToNumber_half)
qed

text \<open>
  C8. On an input that is a string or \<open>undefined\<close>, each of the three validators
  returns (it does not throw), and what it returns is \<open>undefined\<close> or a non-empty
  message string.
\<close>

theorem validators_total:
  assumes "v = Undefined \<or> (\<exists>s. v = Str s)"
  shows "(\<exists>r. validateNamespace v = Inr r \<and> (r = Undefined \<or> (\<exists>m. r = Str m \<and> m \<noteq> []))) \<and>
         (\<exists>r. validateServiceName v = Inr r \<and> (r = Undefined \<or> (\<exists>m. r = Str m \<and> m \<noteq> []))) \<and>
         (\<exists>r. validatePort v = Inr r \<and> (r = Undefined \<or> (\<exists>m. r = Str m \<and> m \<noteq> [])))"
proof -
  have ns: "\<exists>r. validateNamespace v = Inr r \<and> (r = Undefined \<or> (\<exists>m. r = Str m \<and> m \<noteq> []))"
    using assms by (auto simp: validateNamespace_def js_lit_not_Nil)
  have sn: "\<exists>r. validateServiceName v = Inr r \<and> (r = Undefined \<or> (\<exists>m. r = Str m \<and> m \<noteq> []))"
    using assms by (auto simp: validateServiceName_def js_lit_not_Nil)
  have "validatePort v = Inr Undefined \<or>
      validatePort v = Inr (Str (js_lit ''Enter a valid TCP port (1-65535).''))"
    using assms by (auto simp: validatePort_def Let_def)
  then have "\<exists>r. validatePort v = Inr r \<and> (r = Undefined \<or> (\<exists>m. r = Str m \<and> m \<noteq> []))"
    by (auto simp: js_lit_not_Nil)
  with ns sn show ?thesis
    by (intro conjI)
qed

theorem validators_total_witness:
  "(\<exists>r. validateNamespace (Str (js_lit ''abc'')) = Inr r \<and>
      (r = Undefined \<or> (\<exists>m. r = Str m \<and> m \<noteq> []))) \<and>
   (\<exists>r. validateServiceName (Str (js_lit ''abc'')) = Inr r \<and>
      (r = Undefined \<or> (\<exists>m. r = Str m \<and> m \<noteq> []))) \<and>
   (\<exists>r. validatePort (Str (js_lit ''abc'')) = Inr r \<and>
      (r = Undefined \<or> (\<exists>m. r = Str m \<and> m \<noteq> [])))"
proof -
  have "Str (js_lit ''abc'') = Undefined \<or> (\<exists>s. Str (js_lit ''abc'') = Str s)"
    by blast
  then show ?thesis
    by (rule validators_total)
qed

text \<open>
  C10. On \<open>undefined\<close>, \<open>null\<close> and numbers \<open>validatePort\<close> does not throw:
  \<open>undefined\<close> coerces to not-a-number and \<open>null\<close> to 0, so both get the message;
  a number is not trimmed and goes through the same three tests, so 8080 passed as a
  number is valid.
\<close>

theorem validatePort_non_string:
  "js_Number Undefined = Inr NaN \<and>
   validatePort Undefined = Inr (Str (js_lit ''Enter a valid TCP port (1-65535).'')) \<and>
   js_Number Null = Inr (Fin 0) \<and>
   validatePort Null = Inr (Str (js_lit ''Enter a valid TCP port (1-65535).'')) \<and>
   validatePort (Num n) =
     (case n of
        Fin x \<Rightarrow> if x \<le> 0 \<or> 65535 < x
                 then Inr (Str (js_lit ''Enter a valid TCP port (1-65535).''))
                 else Inr Undefined
      | _ \<Rightarrow> Inr (Str (js_lit ''Enter a valid TCP port (1-65535).''))) \<and>
   validatePort (Num (Fin 8080)) = Inr Undefined"
  unfolding validatePort_def Let_def by (simp add: port_tests split: jsnum.split)

theorem validatePort_non_string_witness:
  "validatePort (Num (Fin 65535)) = Inr Undefined \<and>
   validatePort (Num (Fin 65536)) = Inr (Str (js_lit ''Enter a valid TCP port (1-65535).'')) \<and>
   validatePort (Num NaN) = Inr (Str (js_lit ''Enter a valid TCP port (1-65535).''))"
  using validatePort_non_string [of "Fin 65535"] validatePort_non_string [of "Fin 65536"]
    validatePort_non_string [of NaN]
  by simp

text \<open>
  C10 does not extend to every value that is not a string: a symbol cannot be coerced to
  a number, so \<open>Number(value)\<close> throws a TypeError and the validator throws with it.
\<close>

theorem validatePort_symbol_throws: "validatePort (Symbol 0) = Inl TypeError"
  by (simp add: validatePort_def)

end
